theory Spec2Isabelle
  imports Main "HOL-Library.Word"
begin

section \<open>gemini-text-to-speech: the GeminiTTS class of gemini\_tts.py\<close>

text \<open>
  The model follows \<^verbatim>\<open>src/gemini_tts.py\<close>. Python exceptions are values of \<open>exn\<close>
  (class and message), every method returns its result together with the world it leaves
  behind, and the remote service is a function from the request to what the call returns
  or raises. Console output (\<^verbatim>\<open>print\<close>) is not part of the model. A Python \<^verbatim>\<open>dict\<close> is
  the list of its items in insertion order. A string is the list of its characters, each a
  code point below 256.
\<close>

subsection \<open>Exceptions\<close>

datatype exn =
    ValueError string
  | RuntimeError string
  | IndexError string
  | Exception string
  | FileNotFoundError string
  | OSError string  \<comment> \<open>the other subclasses of \<^verbatim>\<open>OSError\<close>\<close>
  | WaveError string  \<comment> \<open>\<^verbatim>\<open>wave.Error\<close>\<close>
  | StructError  \<comment> \<open>\<^verbatim>\<open>struct.error\<close>\<close>
  | APIError string  \<comment> \<open>raised by the remote call\<close>

subsection \<open>Bytes and strings\<close>

type_synonym byte = "8 word"
type_synonym bytes = "byte list"

definition sq :: string where
  \<comment> \<open>the apostrophe\<close>
  "sq = [CHR 0x27]"

definition nl :: string where
  \<comment> \<open>\<^verbatim>\<open>\n\<close>\<close>
  "nl = [CHR 0x0A]"

fun join :: "string \<Rightarrow> string list \<Rightarrow> string" where
  "join sep [] = []"
| "join sep [x] = x"
| "join sep (x # y # ys) = x @ sep @ join sep (y # ys)"

subsection \<open>The voice catalogue\<close>

definition VOICES :: "string list" where
  "VOICES =
    [''Zephyr'', ''Puck'', ''Charon'', ''Kore'', ''Fenrir'', ''Leda'', ''Orus'', ''Aoede'',
     ''Callirrhoe'', ''Autonoe'', ''Enceladus'', ''Iapetus'', ''Umbriel'', ''Algieba'',
     ''Despina'', ''Erinome'', ''Algenib'', ''Rasalgethi'', ''Laomedeia'', ''Achernar'',
     ''Alnilam'', ''Schedar'', ''Gacrux'', ''Pulcherrima'', ''Achird'',
     ''Zubenelgenubi'', ''Vindemiatrix'', ''Sadachbia'', ''Sadaltager'', ''Sulafat'']"

subsection \<open>Requests and responses of the remote call\<close>

datatype VoiceConfig = PrebuiltVoiceConfig (voice_name: string)

record SpeakerVoiceConfig =
  speaker :: string
  voice_config :: VoiceConfig

datatype SpeechConfig =
    SingleVoice VoiceConfig
  | MultiSpeakerVoiceConfig (speaker_voice_configs: "SpeakerVoiceConfig list")

record GenerateContentConfig =
  response_modalities :: "string list"
  speech_config :: SpeechConfig

record request =
  model :: string
  contents :: string
  config :: "GenerateContentConfig option"

record Blob =
  data :: "bytes option"

record Part =
  inline_data :: "Blob option"

record Content =
  parts :: "Part list option"

record Candidate =
  content :: "Content option"

record response =
  candidates :: "Candidate list option"
  resp_text :: "string option"  \<comment> \<open>the \<^verbatim>\<open>.text\<close> property\<close>

type_synonym remote = "request \<Rightarrow> exn + response"

subsection \<open>The world: environment variables, files, calls issued\<close>

record world =
  environ :: "string \<rightharpoonup> string"
  files :: "string \<rightharpoonup> bytes"
  calls :: "request list"
  open_error :: "string \<Rightarrow> exn option"
    \<comment> \<open>what the file system answers when a path is opened for writing: the exception
        (missing directory, a directory, no permission), or \<open>None\<close> when it opens\<close>

definition embedded_null_byte :: exn where
  \<comment> \<open>raised by \<^verbatim>\<open>open\<close> and by \<^verbatim>\<open>os.environ[...] = value\<close> for a string that holds the
      character with code 0\<close>
  "embedded_null_byte = ValueError ''embedded null byte''"

definition open_wb :: "world \<Rightarrow> string \<Rightarrow> exn option" where
  \<comment> \<open>\<^verbatim>\<open>builtins.open(filename, 'wb')\<close>: the exception it raises, \<open>None\<close> when the file is
      opened. A name with the character 0 and the empty name are refused whatever the file
      system holds.\<close>
  "open_wb w filename =
     (if CHR 0x00 \<in> set filename then Some embedded_null_byte
      else if filename = []
      then Some (FileNotFoundError (''[Errno 2] No such file or directory: '' @ [CHR 0x27, CHR 0x27]))
      else open_error w filename)"

definition generate_content_call :: "remote \<Rightarrow> world \<Rightarrow> request \<Rightarrow> (exn + response) \<times> world" where
  \<comment> \<open>\<^verbatim>\<open>self.client.models.generate_content(...)\<close>: one synchronous call, logged in \<open>calls\<close>\<close>
  "generate_content_call api w req = (api req, w\<lparr>calls := calls w @ [req]\<rparr>)"

subsection \<open>The standard library's \<^verbatim>\<open>struct.pack\<close> and \<^verbatim>\<open>wave.Wave_write\<close>\<close>

text \<open>
  \<^verbatim>\<open>save_wave_file\<close> is five calls into CPython's \<^verbatim>\<open>wave\<close> module; the definitions of
  this subsection follow \<^verbatim>\<open>Lib/wave.py\<close> (class \<^verbatim>\<open>Wave_write\<close>), method by method. A method
  that raises leaves the object as it was at the \<^verbatim>\<open>raise\<close>: a method is a function from the
  object to the exception raised, if any, and the object after. The host is little-endian
  (\<^verbatim>\<open>sys.byteorder == 'little'\<close>), so \<^verbatim>\<open>writeframesraw\<close> does not swap sample bytes.
\<close>

definition pack_L :: "int \<Rightarrow> exn + bytes" where
  \<comment> \<open>\<^verbatim>\<open>struct.pack('<L', n)\<close>: four bytes, little-endian; out of range raises\<close>
  "pack_L n =
     (if 0 \<le> n \<and> n \<le> 0xFFFFFFFF
      then Inr [word_of_int n, word_of_int (n div 0x100), word_of_int (n div 0x10000),
                word_of_int (n div 0x1000000)]
      else Inl StructError)"

definition pack_H :: "int \<Rightarrow> exn + bytes" where
  \<comment> \<open>\<^verbatim>\<open>struct.pack('<H', n)\<close>: two bytes, little-endian; out of range raises\<close>
  "pack_H n =
     (if 0 \<le> n \<and> n \<le> 0xFFFF
      then Inr [word_of_int n, word_of_int (n div 0x100)]
      else Inl StructError)"

fun pack_all :: "(exn + bytes) list \<Rightarrow> exn + bytes" where
  \<comment> \<open>one \<^verbatim>\<open>struct.pack\<close> call with several fields: the first bad field raises\<close>
  "pack_all [] = Inr []"
| "pack_all (Inl e # fs) = Inl e"
| "pack_all (Inr b # fs) = (case pack_all fs of Inl e \<Rightarrow> Inl e | Inr bs \<Rightarrow> Inr (b @ bs))"

definition tag_RIFF :: bytes where "tag_RIFF = [0x52, 0x49, 0x46, 0x46]"
definition tag_WAVE :: bytes where "tag_WAVE = [0x57, 0x41, 0x56, 0x45]"
definition tag_fmt :: bytes where "tag_fmt = [0x66, 0x6D, 0x74, 0x20]"
definition tag_data :: bytes where "tag_data = [0x64, 0x61, 0x74, 0x61]"

definition WAVE_FORMAT_PCM :: int where
  "WAVE_FORMAT_PCM = 0x0001"

record Wave_write =
  fp_data :: bytes  \<comment> \<open>contents of the file opened with mode \<^verbatim>\<open>'wb'\<close>\<close>
  fp_pos :: nat  \<comment> \<open>its position (\<^verbatim>\<open>tell()\<close>)\<close>
  nchannels :: int
  sampwidth :: int
  framerate :: int
  nframes :: int
  nframeswritten :: int
  datawritten :: int
  datalength :: int
  headerwritten :: bool
  form_length_pos :: nat
  data_length_pos :: nat

type_synonym wave_method = "Wave_write \<Rightarrow> exn option \<times> Wave_write"

definition seq :: "wave_method \<Rightarrow> wave_method \<Rightarrow> wave_method" where
  \<comment> \<open>two statements in a row: the second runs if the first did not raise\<close>
  "seq f g s = (case f s of (Some e, s') \<Rightarrow> (Some e, s') | (None, s') \<Rightarrow> g s')"

definition file_write :: "bytes \<Rightarrow> Wave_write \<Rightarrow> Wave_write" where
  \<comment> \<open>\<^verbatim>\<open>self._file.write(b)\<close> at the current position, overwriting or extending\<close>
  "file_write b s =
     s\<lparr>fp_data := take (fp_pos s) (fp_data s) @ replicate (fp_pos s - length (fp_data s)) 0 @ b
               @ drop (fp_pos s + length b) (fp_data s),
       fp_pos := fp_pos s + length b\<rparr>"

definition initfp :: "Wave_write" where
  \<comment> \<open>\<^verbatim>\<open>builtins.open(f, 'wb')\<close> creates or truncates the file; \<^verbatim>\<open>initfp\<close> zeroes the fields\<close>
  "initfp = \<lparr>fp_data = [], fp_pos = 0, nchannels = 0, sampwidth = 0, framerate = 0,
            nframes = 0, nframeswritten = 0, datawritten = 0, datalength = 0,
            headerwritten = False, form_length_pos = 0, data_length_pos = 0\<rparr>"

definition setnchannels :: "int \<Rightarrow> wave_method" where
  "setnchannels n s =
     (if datawritten s \<noteq> 0
      then (Some (WaveError ''cannot change parameters after starting to write''), s)
      else if n < 1 then (Some (WaveError ''bad # of channels''), s)
      else (None, s\<lparr>nchannels := n\<rparr>))"

definition setsampwidth :: "int \<Rightarrow> wave_method" where
  "setsampwidth n s =
     (if datawritten s \<noteq> 0
      then (Some (WaveError ''cannot change parameters after starting to write''), s)
      else if n < 1 \<or> n > 4 then (Some (WaveError ''bad sample width''), s)
      else (None, s\<lparr>sampwidth := n\<rparr>))"

definition setframerate :: "int \<Rightarrow> wave_method" where
  \<comment> \<open>\<^verbatim>\<open>int(round(framerate))\<close> is the identity on an \<^verbatim>\<open>int\<close>\<close>
  "setframerate n s =
     (if datawritten s \<noteq> 0
      then (Some (WaveError ''cannot change parameters after starting to write''), s)
      else if n \<le> 0 then (Some (WaveError ''bad frame rate''), s)
      else (None, s\<lparr>framerate := n\<rparr>))"

definition write_header :: "int \<Rightarrow> wave_method" where
  \<comment> \<open>\<^verbatim>\<open>_write_header(initlength)\<close>\<close>
  "write_header initlength s =
     (let s1 = file_write tag_RIFF s;
          s2 = (if nframes s1 = 0
                then s1\<lparr>nframes := initlength div (nchannels s1 * sampwidth s1)\<rparr> else s1);
          s3 = s2\<lparr>datalength := nframes s2 * nchannels s2 * sampwidth s2\<rparr>;
          s4 = s3\<lparr>form_length_pos := fp_pos s3\<rparr>
      in case pack_all
           [pack_L (36 + datalength s4), Inr tag_WAVE, Inr tag_fmt, pack_L 16,
            pack_H WAVE_FORMAT_PCM, pack_H (nchannels s4), pack_L (framerate s4),
            pack_L (nchannels s4 * framerate s4 * sampwidth s4),
            pack_H (nchannels s4 * sampwidth s4), pack_H (sampwidth s4 * 8), Inr tag_data] of
           Inl e \<Rightarrow> (Some e, s4)
         | Inr hdr \<Rightarrow>
             (let s5 = file_write hdr s4;
                  s6 = s5\<lparr>data_length_pos := fp_pos s5\<rparr>
              in case pack_L (datalength s6) of
                   Inl e \<Rightarrow> (Some e, s6)
                 | Inr b \<Rightarrow> (None, (file_write b s6)\<lparr>headerwritten := True\<rparr>)))"

definition ensure_header_written :: "int \<Rightarrow> wave_method" where
  "ensure_header_written datasize s =
     (if \<not> headerwritten s then
        if nchannels s = 0 then (Some (WaveError ''# channels not specified''), s)
        else if sampwidth s = 0 then (Some (WaveError ''sample width not specified''), s)
        else if framerate s = 0 then (Some (WaveError ''sampling rate not specified''), s)
        else write_header datasize s
      else (None, s))"

definition patchheader :: wave_method where
  \<comment> \<open>\<^verbatim>\<open>_patchheader()\<close>: rewrite the two length fields, return to the old position\<close>
  "patchheader s =
     (if datawritten s = datalength s then (None, s)
      else
        let curpos = fp_pos s;
            s1 = s\<lparr>fp_pos := form_length_pos s\<rparr>
        in case pack_L (36 + datawritten s1) of
             Inl e \<Rightarrow> (Some e, s1)
           | Inr b1 \<Rightarrow>
               (let s2 = (file_write b1 s1)\<lparr>fp_pos := data_length_pos s1\<rparr>
                in case pack_L (datawritten s2) of
                     Inl e \<Rightarrow> (Some e, s2)
                   | Inr b2 \<Rightarrow>
                       (None, (file_write b2 s2)\<lparr>fp_pos := curpos,
                                                 datalength := datawritten s2\<rparr>)))"

definition writeframesraw :: "bytes \<Rightarrow> wave_method" where
  "writeframesraw d =
     seq (ensure_header_written (int (length d)))
       (\<lambda>s. let n = int (length d) div (sampwidth s * nchannels s);
                s1 = file_write d s
            in (None, s1\<lparr>datawritten := datawritten s1 + int (length d),
                         nframeswritten := nframeswritten s1 + n\<rparr>))"

definition writeframes :: "bytes \<Rightarrow> wave_method" where
  "writeframes d =
     seq (writeframesraw d)
       (\<lambda>s. if datalength s \<noteq> datawritten s then patchheader s else (None, s))"

definition close :: wave_method where
  \<comment> \<open>\<^verbatim>\<open>close()\<close>, on an object whose file is still open; the \<^verbatim>\<open>finally\<close> clause closes the
      file whatever happened before\<close>
  "close =
     seq (ensure_header_written 0)
       (\<lambda>s. if datalength s \<noteq> datawritten s then patchheader s else (None, s))"

definition with_wave_open :: "wave_method \<Rightarrow> exn option \<times> Wave_write" where
  \<comment> \<open>\<^verbatim>\<open>with wave.open(filename, "wb") as wf: body\<close>. \<^verbatim>\<open>__exit__\<close> calls \<^verbatim>\<open>close()\<close> also when
      the body raised; an exception of \<^verbatim>\<open>close()\<close> replaces the one in flight.\<close>
  "with_wave_open body =
     (case body initfp of
        (r, s) \<Rightarrow>
          (case close s of
             (Some e, s') \<Rightarrow> (Some e, s')
           | (None, s') \<Rightarrow> (r, s')))"

subsection \<open>\<^verbatim>\<open>GeminiTTS.save_wave_file\<close>\<close>

definition save_wave_file ::
  "world \<Rightarrow> string \<Rightarrow> bytes \<Rightarrow> int \<Rightarrow> int \<Rightarrow> int \<Rightarrow> (exn + unit) \<times> world" where
  \<comment> \<open>When \<^verbatim>\<open>wave.open\<close> cannot open the file, its exception leaves the method and nothing
      is written. Otherwise the file named \<open>filename\<close> holds what was written when the
      \<^verbatim>\<open>with\<close> block is left, whether or not an exception leaves it.\<close>
  "save_wave_file w filename pcm_data channels rate sample_width =
     (case open_wb w filename of
        Some e \<Rightarrow> (Inl e, w)
      | None \<Rightarrow>
          (case with_wave_open
                  (seq (setnchannels channels)
                    (seq (setsampwidth sample_width)
                      (seq (setframerate rate)
                        (writeframes pcm_data)))) of
             (r, ww) \<Rightarrow>
               (let w' = w\<lparr>files := (files w)(filename \<mapsto> fp_data ww)\<rparr>
                in case r of Some e \<Rightarrow> (Inl e, w') | None \<Rightarrow> (Inr (), w'))))"

subsection \<open>\<^verbatim>\<open>GeminiTTS.__init__\<close>\<close>

record GeminiTTS =
  client :: remote



subsection \<open>Extracting the audio bytes from a response\<close>

definition no_audio_data :: exn where
  "no_audio_data = RuntimeError ''Failed to generate audio: No audio data in response''"

definition empty_audio_data :: exn where
  "empty_audio_data = RuntimeError ''Failed to generate audio: Empty audio data''"

definition extract_audio :: "response \<Rightarrow> exn + bytes" where
  \<comment> \<open>lines 104 to 115 of \<^verbatim>\<open>single_speaker_tts\<close>, repeated as lines 176 to 187 of
      \<^verbatim>\<open>multi_speaker_tts\<close>; \<^verbatim>\<open>not x\<close> holds for \<^verbatim>\<open>None\<close>, an empty list and empty bytes\<close>
  "extract_audio r =
     (case candidates r of
        None \<Rightarrow> Inl no_audio_data
      | Some [] \<Rightarrow> Inl no_audio_data
      | Some (c # _) \<Rightarrow>
          (case content c of
             None \<Rightarrow> Inl no_audio_data
           | Some ct \<Rightarrow>
               (case parts ct of
                  None \<Rightarrow> Inl no_audio_data
                | Some [] \<Rightarrow> Inl no_audio_data
                | Some (p # _) \<Rightarrow>
                    (case inline_data p of
                       None \<Rightarrow> Inl no_audio_data
                     | Some b \<Rightarrow>
                         (case data b of
                            None \<Rightarrow> Inl empty_audio_data
                          | Some [] \<Rightarrow> Inl empty_audio_data
                          | Some audio_data \<Rightarrow> Inr audio_data)))))"

subsection \<open>\<^verbatim>\<open>GeminiTTS.single_speaker_tts\<close>\<close>

definition voice_not_supported :: "string \<Rightarrow> exn" where
  "voice_not_supported voice =
     ValueError (''Voice '' @ sq @ voice @ sq @ '' not supported. ''
                 @ ''Choose from: '' @ join '', '' VOICES)"

definition single_request :: "string \<Rightarrow> string \<Rightarrow> string \<Rightarrow> request" where
  "single_request mdl text voice =
     \<lparr>model = mdl, contents = text,
      config = Some \<lparr>response_modalities = [''AUDIO''],
                     speech_config = SingleVoice (PrebuiltVoiceConfig voice)\<rparr>\<rparr>"

definition single_speaker_tts ::
  "GeminiTTS \<Rightarrow> world \<Rightarrow> string \<Rightarrow> string \<Rightarrow> string \<Rightarrow> string \<Rightarrow> (exn + string) \<times> world" where
  "single_speaker_tts self w text voice output_file mdl =
     (if voice \<notin> set VOICES then (Inl (voice_not_supported voice), w)
      else
        (case generate_content_call (client self) w (single_request mdl text voice) of
           (Inl e, w1) \<Rightarrow> (Inl e, w1)
         | (Inr r, w1) \<Rightarrow>
             (case extract_audio r of
                Inl e \<Rightarrow> (Inl e, w1)
              | Inr audio_data \<Rightarrow>
                  (case save_wave_file w1 output_file audio_data 1 24000 2 of
                     (Inl e, w2) \<Rightarrow> (Inl e, w2)
                   | (Inr _, w2) \<Rightarrow> (Inr output_file, w2)))))"

subsection \<open>\<^verbatim>\<open>GeminiTTS.multi_speaker_tts\<close>\<close>

definition speaker_voice_not_supported :: "string \<Rightarrow> string \<Rightarrow> exn" where
  "speaker_voice_not_supported voice spk =
     ValueError (''Voice '' @ sq @ voice @ sq @ '' for speaker '' @ sq @ spk @ sq
                 @ '' not supported. '' @ ''Choose from: '' @ join '', '' VOICES)"

definition max_speakers :: exn where
  "max_speakers = ValueError ''Maximum 2 speakers supported''"

fun validate_voices :: "(string \<times> string) list \<Rightarrow> exn + unit" where
  \<comment> \<open>the loop of lines 136 to 141, over the items in insertion order\<close>
  "validate_voices [] = Inr ()"
| "validate_voices ((spk, voice) # rest) =
     (if voice \<notin> set VOICES then Inl (speaker_voice_not_supported voice spk)
      else validate_voices rest)"

fun speaker_configs :: "(string \<times> string) list \<Rightarrow> SpeakerVoiceConfig list" where
  \<comment> \<open>the loop of lines 150 to 161: one entry appended per item\<close>
  "speaker_configs [] = []"
| "speaker_configs ((speaker_name, voice) # rest) =
     \<lparr>speaker = speaker_name, voice_config = PrebuiltVoiceConfig voice\<rparr> # speaker_configs rest"

definition multi_request :: "string \<Rightarrow> string \<Rightarrow> (string \<times> string) list \<Rightarrow> request" where
  "multi_request mdl text speakers =
     \<lparr>model = mdl, contents = text,
      config = Some \<lparr>response_modalities = [''AUDIO''],
                     speech_config = MultiSpeakerVoiceConfig (speaker_configs speakers)\<rparr>\<rparr>"

definition multi_speaker_tts ::
  "GeminiTTS \<Rightarrow> world \<Rightarrow> string \<Rightarrow> (string \<times> string) list \<Rightarrow> string \<Rightarrow> string
     \<Rightarrow> (exn + string) \<times> world" where
  "multi_speaker_tts self w text speakers output_file mdl =
     (case validate_voices speakers of
        Inl e \<Rightarrow> (Inl e, w)
      | Inr _ \<Rightarrow>
          (if length speakers > 2 then (Inl max_speakers, w)
           else
             (case generate_content_call (client self) w (multi_request mdl text speakers) of
                (Inl e, w1) \<Rightarrow> (Inl e, w1)
              | (Inr r, w1) \<Rightarrow>
                  (case extract_audio r of
                     Inl e \<Rightarrow> (Inl e, w1)
                   | Inr audio_data \<Rightarrow>
                       (case save_wave_file w1 output_file audio_data 1 24000 2 of
                          (Inl e, w2) \<Rightarrow> (Inl e, w2)
                        | (Inr _, w2) \<Rightarrow> (Inr output_file, w2))))))"

subsection \<open>\<^verbatim>\<open>GeminiTTS.generate_content\<close> and \<^verbatim>\<open>generate_and_speak\<close>\<close>

definition index :: "'a list \<Rightarrow> nat \<Rightarrow> exn + 'a" where
  \<comment> \<open>\<^verbatim>\<open>xs[i]\<close> for an index that is not negative\<close>
  "index xs i = (if i < length xs then Inr (xs ! i) else Inl (IndexError ''list index out of range''))"

definition dialogue_prompt :: "string \<Rightarrow> string \<Rightarrow> string \<Rightarrow> string" where
  \<comment> \<open>the f-string of lines 210 to 222, \<open>n0\<close> and \<open>n1\<close> the first two speaker names\<close>
  "dialogue_prompt topic n0 n1 =
     ''Create a dialogue conversation about '' @ topic @ ''. ''
     @ ''Use ONLY this exact format with no narrative text:'' @ nl @ nl
     @ n0 @ '': Hello, let'' @ sq @ ''s discuss '' @ topic @ ''.'' @ nl
     @ n1 @ '': Great idea! What'' @ sq @ ''s your '' @ ''perspective?'' @ nl
     @ n0 @ '': Well, I think...'' @ nl
     @ n1 @ '': That'' @ sq @ ''s interesting...'' @ nl @ nl
     @ ''Write 4-6 exchanges between '' @ n0 @ '' and '' @ n1 @ ''. ''
     @ ''Each line must start with the speaker name and colon. ''
     @ ''NO story text, NO descriptions, ONLY dialogue lines.''"

definition explanation_prompt :: "string \<Rightarrow> string" where
  "explanation_prompt topic =
     ''Generate a short, engaging explanation '' @ ''(around 100 words) about '' @ topic @ ''.''"

definition is_space :: "char \<Rightarrow> bool" where
  \<comment> \<open>the characters below 256 that \<^verbatim>\<open>str.strip()\<close> removes (\<^verbatim>\<open>str.isspace\<close>)\<close>
  "is_space c = (c \<in> {CHR 0x09, CHR 0x0A, CHR 0x0B, CHR 0x0C, CHR 0x0D,
                       CHR 0x1C, CHR 0x1D, CHR 0x1E, CHR 0x1F, CHR 0x20,
                       CHR 0x85, CHR 0xA0})"

definition strip :: "string \<Rightarrow> string" where
  "strip s = rev (dropWhile is_space (rev (dropWhile is_space s)))"

definition generate_content ::
  "GeminiTTS \<Rightarrow> world \<Rightarrow> string \<Rightarrow> (string \<times> string) list option \<Rightarrow> string
     \<Rightarrow> (exn + string) \<times> world" where
  \<comment> \<open>\<^verbatim>\<open>if speakers:\<close> holds for a dict that is not empty; the f-string evaluates
      \<^verbatim>\<open>speaker_names[0]\<close> first, then \<^verbatim>\<open>speaker_names[1]\<close>\<close>
  "generate_content self w topic speakers generation_model =
     (case (case speakers of
              Some (item # items) \<Rightarrow>
                (let speaker_names = map fst (item # items)
                 in case index speaker_names 0 of
                      Inl e \<Rightarrow> Inl e
                    | Inr n0 \<Rightarrow>
                        (case index speaker_names 1 of
                           Inl e \<Rightarrow> Inl e
                         | Inr n1 \<Rightarrow> Inr (dialogue_prompt topic n0 n1)))
            | _ \<Rightarrow> Inr (explanation_prompt topic)) of
        Inl e \<Rightarrow> (Inl e, w)
      | Inr prompt \<Rightarrow>
          (case generate_content_call (client self) w
                  \<lparr>model = generation_model, contents = prompt, config = None\<rparr> of
             (Inl e, w1) \<Rightarrow> (Inl e, w1)
           | (Inr r, w1) \<Rightarrow>
               (case resp_text r of
                  None \<Rightarrow> (Inl (Exception ''Failed to generate content''), w1)
                | Some [] \<Rightarrow> (Inl (Exception ''Failed to generate content''), w1)
                | Some t \<Rightarrow> (Inr (strip t), w1))))"

definition generate_and_speak ::
  "GeminiTTS \<Rightarrow> world \<Rightarrow> string \<Rightarrow> (string \<times> string) list option \<Rightarrow> string \<Rightarrow> string
     \<Rightarrow> string \<Rightarrow> (exn + string) \<times> world" where
  "generate_and_speak self w topic speakers output_file generation_model tts_model =
     (case generate_content self w topic speakers generation_model of
        (Inl e, w1) \<Rightarrow> (Inl e, w1)
      | (Inr transcript, w1) \<Rightarrow>
          (case speakers of
             Some (item # items) \<Rightarrow>
               multi_speaker_tts self w1 transcript (item # items) output_file tts_model
           | _ \<Rightarrow> single_speaker_tts self w1 transcript ''Kore'' output_file tts_model))"

subsection \<open>Reading a written file back\<close>




subsection \<open>Fixtures\<close>

definition empty_world :: world where
  \<comment> \<open>no variable, no file, no call, and a file system that opens every path it is asked for\<close>
  "empty_world = \<lparr>environ = Map.empty, files = Map.empty, calls = [],
                  open_error = (\<lambda>path. None)\<rparr>"

definition audio_response :: "bytes \<Rightarrow> response" where
  \<comment> \<open>a well-formed response: one candidate, one part, an inline payload\<close>
  "audio_response d =
     \<lparr>candidates = Some [\<lparr>content = Some \<lparr>parts = Some [\<lparr>inline_data = Some \<lparr>data = Some d\<rparr>\<rparr>]\<rparr>\<rparr>],
      resp_text = None\<rparr>"

definition audio_service :: "GeminiTTS" where
  \<comment> \<open>a client whose every call returns the four bytes 0, 1, 2, 3\<close>
  "audio_service = \<lparr>client = (\<lambda>req. Inr (audio_response [0, 1, 2, 3]))\<rparr>"


subsection \<open>The file written for mono, 16-bit, 24000 Hz\<close>

definition pcm_header :: "int \<Rightarrow> bytes" where
  \<comment> \<open>the 44 bytes before \<open>n\<close> bytes of samples: \<^verbatim>\<open>RIFF\<close>, \<open>36 + n\<close>, \<^verbatim>\<open>WAVE\<close>, \<^verbatim>\<open>fmt\<close>,
      16, PCM, 1 channel, 24000 Hz, 48000 bytes per second, 2 bytes per frame, 16 bits,
      \<^verbatim>\<open>data\<close>, \<open>n\<close>\<close>
  "pcm_header n =
     tag_RIFF @ [word_of_int (36 + n), word_of_int ((36 + n) div 0x100),
                 word_of_int ((36 + n) div 0x10000), word_of_int ((36 + n) div 0x1000000)]
     @ tag_WAVE @ tag_fmt
     @ [16, 0, 0, 0, 1, 0, 1, 0, 0xC0, 0x5D, 0, 0, 0x80, 0xBB, 0, 0, 2, 0, 16, 0]
     @ tag_data
     @ [word_of_int n, word_of_int (n div 0x100), word_of_int (n div 0x10000),
        word_of_int (n div 0x1000000)]"

section \<open>Properties\<close>

subsection \<open>The audio file\<close>

lemmas wave_defs = with_wave_open_def seq_def setnchannels_def setsampwidth_def setframerate_def
  writeframes_def writeframesraw_def ensure_header_written_def write_header_def patchheader_def
  close_def initfp_def file_write_def pack_L_def pack_H_def tag_RIFF_def tag_WAVE_def tag_fmt_def
  tag_data_def WAVE_FORMAT_PCM_def

lemma open_wb_update [simp]:
  "open_wb (w\<lparr>files := f\<rparr>) fn = open_wb w fn"
  "open_wb (w\<lparr>calls := c\<rparr>) fn = open_wb w fn"
  "open_wb (w\<lparr>environ := e\<rparr>) fn = open_wb w fn"
  by (simp_all add: open_wb_def)

lemma open_wb_out_wav: "open_wb empty_world ''out.wav'' = None"
  by (simp add: open_wb_def empty_world_def)

lemma save_wave_file_not_opened:
  "open_wb w fn = Some e \<Longrightarrow> save_wave_file w fn B c r sw = (Inl e, w)"
  by (simp add: save_wave_file_def)


lemma save_wave_file_frame:
  assumes "save_wave_file w fn B c r sw = (x, w')"
  shows "calls w' = calls w" and "environ w' = environ w"
    and "files w' = (files w)(fn := files w' fn)"
  using assms
  by (auto simp: save_wave_file_def Let_def split: prod.splits option.splits)

lemma pcm_session_even:
  assumes "36 + int (length B) \<le> 0xFFFFFFFF" and "length B = 2 * k"
  shows "with_wave_open (seq (setnchannels 1) (seq (setsampwidth 2) (seq (setframerate 24000)
           (writeframes B)))) = (r, s) \<Longrightarrow> r = None \<and> fp_data s = pcm_header (int (length B)) @ B"
  using assms
  by (auto simp add: wave_defs Let_def pcm_header_def mult.commute)

lemma pcm_session_odd:
  assumes "36 + int (length B) \<le> 0xFFFFFFFF" and "length B = 2 * k + 1"
  shows "with_wave_open (seq (setnchannels 1) (seq (setsampwidth 2) (seq (setframerate 24000)
           (writeframes B)))) = (r, s) \<Longrightarrow> r = None \<and> fp_data s = pcm_header (int (length B)) @ B"
  using assms
  by (auto simp add: wave_defs Let_def pcm_header_def)

lemma pcm_session:
  assumes "36 + int (length B) \<le> 0xFFFFFFFF"
    and "with_wave_open (seq (setnchannels 1) (seq (setsampwidth 2) (seq (setframerate 24000)
           (writeframes B)))) = (r, s)"
  shows "r = None \<and> fp_data s = pcm_header (int (length B)) @ B"
proof (cases "even (length B)")
  case True
  then obtain k where "length B = 2 * k" by (auto elim: evenE)
  with assms show ?thesis using pcm_session_even by blast
next
  case False
  then obtain k where "length B = 2 * k + 1" by (auto elim: oddE)
  with assms show ?thesis using pcm_session_odd by blast
qed

lemma save_wave_file_pcm:
  assumes "36 + int (length B) \<le> 0xFFFFFFFF" and "open_wb w fn = None"
  shows "save_wave_file w fn B 1 24000 2
           = (Inr (), w\<lparr>files := (files w)(fn \<mapsto> pcm_header (int (length B)) @ B)\<rparr>)"
  using pcm_session [OF assms(1)] assms(2)
  by (auto simp add: save_wave_file_def split: prod.splits)







lemma save_wave_file_shape:
  "\<exists>x f. \<forall>w. save_wave_file w fn B c r sw
            = (case open_wb w fn of
                 Some e \<Rightarrow> (Inl e, w)
               | None \<Rightarrow> (x, w\<lparr>files := (files w)(fn \<mapsto> f)\<rparr>))"
proof (cases "with_wave_open (seq (setnchannels c) (seq (setsampwidth sw) (seq (setframerate r)
                (writeframes B))))")
  case (Pair e s)
  then show ?thesis
    by (cases e) (auto simp add: save_wave_file_def split: option.splits)
qed





text \<open>
  C7. Saving the same bytes under the same name a second time changes nothing: the result
  and the world (environment, files, calls issued) are those of the first call, whether the
  file could be opened or not. When the file can be opened, the contents that the name held
  before have no influence on the file (it is overwritten, not appended to). Every other
  path of the file system is as before, so no copy of the previous file is kept.
\<close>

theorem C7_save_wave_file_idempotent:
  "save_wave_file (snd (save_wave_file w fn B c r sw)) fn B c r sw = save_wave_file w fn B c r sw
   \<and> (open_wb w fn = None \<longrightarrow>
        files (snd (save_wave_file (w\<lparr>files := (files w)(fn \<mapsto> old)\<rparr>) fn B c r sw))
          = files (snd (save_wave_file w fn B c r sw)))
   \<and> (files (snd (save_wave_file w fn B c r sw)))(fn := None) = (files w)(fn := None)"
proof -
  obtain x f where *: "\<And>w. save_wave_file w fn B c r sw
            = (case open_wb w fn of
                 Some e \<Rightarrow> (Inl e, w)
               | None \<Rightarrow> (x, w\<lparr>files := (files w)(fn \<mapsto> f)\<rparr>))"
    using save_wave_file_shape by blast
  show ?thesis
    by (cases "open_wb w fn") (simp_all add: *)
qed

text \<open>
  Twice the four bytes 0, 1, 2, 3 under the name \<^verbatim>\<open>out.wav\<close>, and once over a file that
  held the two bytes 9, 9.
\<close>

theorem C7_save_wave_file_idempotent_witness:
  "save_wave_file (snd (save_wave_file empty_world ''out.wav'' [0, 1, 2, 3] 1 24000 2))
       ''out.wav'' [0, 1, 2, 3] 1 24000 2
     = (Inr (), empty_world\<lparr>files := [''out.wav'' \<mapsto> pcm_header 4 @ [0, 1, 2, 3]]\<rparr>)
   \<and> save_wave_file empty_world ''out.wav'' [0, 1, 2, 3] 1 24000 2
     = (Inr (), empty_world\<lparr>files := [''out.wav'' \<mapsto> pcm_header 4 @ [0, 1, 2, 3]]\<rparr>)
   \<and> open_wb empty_world ''out.wav'' = None
   \<and> files (snd (save_wave_file (empty_world\<lparr>files := [''out.wav'' \<mapsto> [9, 9]]\<rparr>)
                    ''out.wav'' [0, 1, 2, 3] 1 24000 2))
     = [''out.wav'' \<mapsto> pcm_header 4 @ [0, 1, 2, 3]]"
  using C7_save_wave_file_idempotent [of empty_world "''out.wav''" "[0, 1, 2, 3]" 1 24000 2
      "[9, 9]"]
    save_wave_file_pcm [of "[0, 1, 2, 3]" empty_world "''out.wav''"] open_wb_out_wav
  by (simp add: empty_world_def)

subsection \<open>Validation and the request\<close>

lemma validate_voices_ok:
  "validate_voices speakers = Inr () \<longleftrightarrow> (\<forall>(s, v) \<in> set speakers. v \<in> set VOICES)"
  by (induction speakers rule: validate_voices.induct) auto

lemma validate_voices_first:
  "find (\<lambda>(s, v). v \<notin> set VOICES) speakers = Some (s, v)
     \<Longrightarrow> validate_voices speakers = Inl (speaker_voice_not_supported v s)"
  by (induction speakers rule: validate_voices.induct) (auto split: if_splits)

lemma find_SomeD: "find P xs = Some x \<Longrightarrow> x \<in> set xs \<and> P x"
  by (induction xs) (auto split: if_splits)

lemma find_invalid:
  assumes "(s, v) \<in> set speakers" and "v \<notin> set VOICES"
  obtains s' v' where "find (\<lambda>(s, v). v \<notin> set VOICES) speakers = Some (s', v')"
proof -
  from assms have "find (\<lambda>(s, v). v \<notin> set VOICES) speakers \<noteq> None"
    by (auto simp: find_None_iff)
  then show thesis
    using that by (cases "find (\<lambda>(s, v). v \<notin> set VOICES) speakers") auto
qed

lemma single_speaker_tts_calls:
  "voice \<in> set VOICES \<Longrightarrow>
     calls (snd (single_speaker_tts self w t voice out mdl)) = calls w @ [single_request mdl t voice]"
  by (auto simp add: single_speaker_tts_def generate_content_call_def
           split: sum.splits prod.splits dest: save_wave_file_frame)

lemma multi_speaker_tts_calls:
  "validate_voices speakers = Inr () \<Longrightarrow> length speakers \<le> 2 \<Longrightarrow>
     calls (snd (multi_speaker_tts self w t speakers out mdl))
       = calls w @ [multi_request mdl t speakers]"
  by (auto simp add: multi_speaker_tts_def generate_content_call_def
           split: sum.splits prod.splits dest: save_wave_file_frame)

lemma multi_speaker_tts_invalid:
  "validate_voices speakers = Inl e \<Longrightarrow>
     multi_speaker_tts self w t speakers out mdl = (Inl e, w)"
  by (simp add: multi_speaker_tts_def)

lemma multi_speaker_tts_too_many:
  "validate_voices speakers = Inr () \<Longrightarrow> 2 < length speakers \<Longrightarrow>
     multi_speaker_tts self w t speakers out mdl = (Inl max_speakers, w)"
  by (simp add: multi_speaker_tts_def)

lemma audio_service_single:
  "open_wb w out = None \<Longrightarrow>
   single_speaker_tts audio_service w t ''Kore'' out mdl
     = (Inr out, w\<lparr>calls := calls w @ [single_request mdl t ''Kore''],
                   files := (files w)(out \<mapsto> pcm_header 4 @ [0, 1, 2, 3])\<rparr>)"
  by (simp add: single_speaker_tts_def generate_content_call_def VOICES_def audio_service_def
        audio_response_def extract_audio_def save_wave_file_pcm)

lemma audio_service_multi:
  "open_wb w out = None \<Longrightarrow>
   multi_speaker_tts audio_service w t [(''Jane'', ''Kore''), (''Joe'', ''Puck'')] out mdl
     = (Inr out, w\<lparr>calls := calls w @ [multi_request mdl t [(''Jane'', ''Kore''), (''Joe'', ''Puck'')]],
                   files := (files w)(out \<mapsto> pcm_header 4 @ [0, 1, 2, 3])\<rparr>)"
  by (simp add: multi_speaker_tts_def generate_content_call_def VOICES_def audio_service_def
        audio_response_def extract_audio_def save_wave_file_pcm)

text \<open>
  C1, as the code has it. Neither method looks at the text. Whatever the text is, the empty
  string and strings of spaces included, a valid voice makes \<^verbatim>\<open>single_speaker_tts\<close> issue
  exactly one call, and valid voices for at most two speakers make \<^verbatim>\<open>multi_speaker_tts\<close>
  issue exactly one call; the call carries the text unchanged.
\<close>

theorem C1_text_not_validated:
  "(voice \<in> set VOICES \<longrightarrow>
      calls (snd (single_speaker_tts self w t voice out mdl))
        = calls w @ [single_request mdl t voice])
   \<and> ((\<forall>(s, v) \<in> set speakers. v \<in> set VOICES) \<and> length speakers \<le> 2 \<longrightarrow>
      calls (snd (multi_speaker_tts self w t speakers out mdl))
        = calls w @ [multi_request mdl t speakers])"
  by (simp add: single_speaker_tts_calls multi_speaker_tts_calls validate_voices_ok)

text \<open>A text of three spaces, with the voice Kore and with the speakers Jane and Joe.\<close>

theorem C1_text_not_validated_witness:
  "''Kore'' \<in> set VOICES
   \<and> calls (snd (single_speaker_tts audio_service empty_world ''   '' ''Kore'' ''out.wav'' ''tts''))
       = [single_request ''tts'' ''   '' ''Kore'']
   \<and> ''Puck'' \<in> set VOICES
   \<and> calls (snd (multi_speaker_tts audio_service empty_world ''   ''
                    [(''Jane'', ''Kore''), (''Joe'', ''Puck'')] ''out.wav'' ''tts''))
       = [multi_request ''tts'' ''   '' [(''Jane'', ''Kore''), (''Joe'', ''Puck'')]]"
  using C1_text_not_validated [where voice = "''Kore''" and self = audio_service
      and w = empty_world and t = "''   ''" and out = "''out.wav''" and mdl = "''tts''"
      and speakers = "[(''Jane'', ''Kore''), (''Joe'', ''Puck'')]"]
  by (simp add: VOICES_def empty_world_def)

text \<open>
  The empty text and a text of three spaces are sent to the service, and the methods return
  the name of the file they wrote: nothing fails, and the call is issued.
\<close>

theorem C1_counterexample:
  "single_speaker_tts audio_service empty_world '''' ''Kore'' ''out.wav'' ''tts''
     = (Inr ''out.wav'',
        empty_world\<lparr>files := [''out.wav'' \<mapsto> pcm_header 4 @ [0, 1, 2, 3]],
                     calls := [single_request ''tts'' '''' ''Kore'']\<rparr>)
   \<and> multi_speaker_tts audio_service empty_world ''   ''
         [(''Jane'', ''Kore''), (''Joe'', ''Puck'')] ''out.wav'' ''tts''
     = (Inr ''out.wav'',
        empty_world\<lparr>files := [''out.wav'' \<mapsto> pcm_header 4 @ [0, 1, 2, 3]],
                     calls := [multi_request ''tts'' ''   ''
                                 [(''Jane'', ''Kore''), (''Joe'', ''Puck'')]]\<rparr>)"
  unfolding audio_service_single [OF open_wb_out_wav] audio_service_multi [OF open_wb_out_wav]
  by (simp add: empty_world_def)

text \<open>
  C2, as the code has it. A mapping of more than two entries makes \<^verbatim>\<open>multi_speaker_tts\<close>
  fail and leaves the world as it was, so no call is issued. The voices are checked before
  the size: when some voice of the mapping is not in the catalogue, the failure is the voice
  error for the first such entry in insertion order, however many entries there are; the
  failure is ``Maximum 2 speakers supported'' only when every voice is in the catalogue. A
  mapping of one or two entries with valid voices passes validation: the call is issued.
\<close>

theorem C2_speaker_limit:
  "(2 < length speakers \<and> (\<forall>(s, v) \<in> set speakers. v \<in> set VOICES) \<longrightarrow>
      multi_speaker_tts self w t speakers out mdl = (Inl max_speakers, w))
   \<and> (2 < length bad \<and> find (\<lambda>(s, v). v \<notin> set VOICES) bad = Some (s', v') \<longrightarrow>
        multi_speaker_tts self w t bad out mdl = (Inl (speaker_voice_not_supported v' s'), w)
        \<and> speaker_voice_not_supported v' s' \<noteq> max_speakers)
   \<and> (2 < length many \<longrightarrow> (\<exists>e. multi_speaker_tts self w t many out mdl = (Inl e, w)))
   \<and> ((length few = 1 \<or> length few = 2) \<and> (\<forall>(s, v) \<in> set few. v \<in> set VOICES) \<longrightarrow>
        calls (snd (multi_speaker_tts self w t few out mdl))
          = calls w @ [multi_request mdl t few])"
proof (intro conjI impI)
  assume "2 < length speakers \<and> (\<forall>(s, v) \<in> set speakers. v \<in> set VOICES)"
  then show "multi_speaker_tts self w t speakers out mdl = (Inl max_speakers, w)"
    by (simp add: multi_speaker_tts_too_many validate_voices_ok)
next
  assume "2 < length bad \<and> find (\<lambda>(s, v). v \<notin> set VOICES) bad = Some (s', v')"
  then have f: "find (\<lambda>(s, v). v \<notin> set VOICES) bad = Some (s', v')"
    by (rule conjunct2)
  show "multi_speaker_tts self w t bad out mdl = (Inl (speaker_voice_not_supported v' s'), w)"
    by (rule multi_speaker_tts_invalid [OF validate_voices_first [OF f]])
  show "speaker_voice_not_supported v' s' \<noteq> max_speakers"
    by (simp add: speaker_voice_not_supported_def max_speakers_def)
next
  assume long: "2 < length many"
  show "\<exists>e. multi_speaker_tts self w t many out mdl = (Inl e, w)"
  proof (cases "validate_voices many")
    case (Inl e)
    then show ?thesis
      by (simp add: multi_speaker_tts_invalid)
  next
    case (Inr u)
    then show ?thesis
      using long by (simp add: multi_speaker_tts_too_many)
  qed
next
  assume "(length few = 1 \<or> length few = 2) \<and> (\<forall>(s, v) \<in> set few. v \<in> set VOICES)"
  then show "calls (snd (multi_speaker_tts self w t few out mdl))
          = calls w @ [multi_request mdl t few]"
    by (auto simp add: multi_speaker_tts_calls validate_voices_ok)
qed

text \<open>
  Three speakers with valid voices; three speakers of whom the second, B with the voice Y,
  is the first with an unknown voice; Jane and Joe.
\<close>

theorem C2_speaker_limit_witness:
  "2 < length [(''A'', ''Kore''), (''B'', ''Puck''), (''C'', ''Leda'')]
   \<and> multi_speaker_tts audio_service empty_world ''hi''
         [(''A'', ''Kore''), (''B'', ''Puck''), (''C'', ''Leda'')] ''out.wav'' ''tts''
       = (Inl max_speakers, empty_world)
   \<and> find (\<lambda>(s, v). v \<notin> set VOICES) [(''A'', ''Kore''), (''B'', ''Y''), (''C'', ''Z'')]
       = Some (''B'', ''Y'')
   \<and> multi_speaker_tts audio_service empty_world ''hi''
         [(''A'', ''Kore''), (''B'', ''Y''), (''C'', ''Z'')] ''out.wav'' ''tts''
       = (Inl (speaker_voice_not_supported ''Y'' ''B''), empty_world)
   \<and> length [(''Jane'', ''Kore''), (''Joe'', ''Puck'')] = 2
   \<and> calls (snd (multi_speaker_tts audio_service empty_world ''hi''
                    [(''Jane'', ''Kore''), (''Joe'', ''Puck'')] ''out.wav'' ''tts''))
       = [multi_request ''tts'' ''hi'' [(''Jane'', ''Kore''), (''Joe'', ''Puck'')]]"
  using C2_speaker_limit [where speakers = "[(''A'', ''Kore''), (''B'', ''Puck''), (''C'', ''Leda'')]"
      and bad = "[(''A'', ''Kore''), (''B'', ''Y''), (''C'', ''Z'')]"
      and s' = "''B''" and v' = "''Y''"
      and many = "[(''A'', ''Kore''), (''B'', ''Y''), (''C'', ''Z'')]"
      and few = "[(''Jane'', ''Kore''), (''Joe'', ''Puck'')]" and self = audio_service
      and w = empty_world and t = "''hi''" and out = "''out.wav''" and mdl = "''tts''"]
  by (simp add: VOICES_def empty_world_def)

text \<open>
  The mapping A to X, B to Y, C to Z: the exception raised is the one for the voice X of
  speaker A, not the one for the number of speakers.
\<close>

theorem C2_counterexample:
  "multi_speaker_tts audio_service empty_world ''hi''
       [(''A'', ''X''), (''B'', ''Y''), (''C'', ''Z'')] ''out.wav'' ''tts''
     = (Inl (speaker_voice_not_supported ''X'' ''A''), empty_world)
   \<and> speaker_voice_not_supported ''X'' ''A'' \<noteq> max_speakers"
  by (simp add: multi_speaker_tts_def VOICES_def speaker_voice_not_supported_def
        max_speakers_def)

subsection \<open>Extracting the audio\<close>

text \<open>
  C3, as the code has it. The extraction fails in two ways, not three. No candidates (the
  field absent or the list empty), no content, no parts (absent or empty) and no inline
  payload in the first part all raise the same exception, ``No audio data in response''.
  An inline payload whose bytes are absent or empty raises a different one, ``Empty audio
  data''. There is no third failure.
\<close>

theorem C3_failure_kinds:
  "extract_audio \<lparr>candidates = None, resp_text = t\<rparr> = Inl no_audio_data
   \<and> extract_audio \<lparr>candidates = Some [], resp_text = t\<rparr> = Inl no_audio_data
   \<and> extract_audio \<lparr>candidates = Some (\<lparr>content = None\<rparr> # cs), resp_text = t\<rparr>
       = Inl no_audio_data
   \<and> extract_audio \<lparr>candidates = Some (\<lparr>content = Some \<lparr>parts = None\<rparr>\<rparr> # cs), resp_text = t\<rparr>
       = Inl no_audio_data
   \<and> extract_audio \<lparr>candidates = Some (\<lparr>content = Some \<lparr>parts = Some []\<rparr>\<rparr> # cs), resp_text = t\<rparr>
       = Inl no_audio_data
   \<and> extract_audio
         \<lparr>candidates = Some (\<lparr>content = Some \<lparr>parts = Some (\<lparr>inline_data = None\<rparr> # ps)\<rparr>\<rparr> # cs),
          resp_text = t\<rparr>
       = Inl no_audio_data
   \<and> extract_audio
         \<lparr>candidates = Some (\<lparr>content = Some
              \<lparr>parts = Some (\<lparr>inline_data = Some \<lparr>data = None\<rparr>\<rparr> # ps)\<rparr>\<rparr> # cs),
          resp_text = t\<rparr>
       = Inl empty_audio_data
   \<and> extract_audio
         \<lparr>candidates = Some (\<lparr>content = Some
              \<lparr>parts = Some (\<lparr>inline_data = Some \<lparr>data = Some []\<rparr>\<rparr> # ps)\<rparr>\<rparr> # cs),
          resp_text = t\<rparr>
       = Inl empty_audio_data
   \<and> no_audio_data \<noteq> empty_audio_data
   \<and> (\<forall>e. extract_audio r = Inl e \<longrightarrow> e = no_audio_data \<or> e = empty_audio_data)"
  by (auto simp add: extract_audio_def no_audio_data_def empty_audio_data_def
        split: option.splits list.splits)

text \<open>A response whose first candidate has no parts, and one whose payload is empty.\<close>

theorem C3_failure_kinds_witness:
  "extract_audio \<lparr>candidates = Some [\<lparr>content = Some \<lparr>parts = Some []\<rparr>\<rparr>], resp_text = None\<rparr>
     = Inl no_audio_data
   \<and> extract_audio (audio_response []) = Inl empty_audio_data
   \<and> no_audio_data \<noteq> empty_audio_data"
  using C3_failure_kinds [where cs = "[]" and ps = "[]" and t = None
      and r = "audio_response []"]
  by (simp add: audio_response_def)

text \<open>
  A response without candidates and a response whose only candidate has no content fail
  with the same exception.
\<close>

theorem C3_counterexample:
  "extract_audio \<lparr>candidates = Some [], resp_text = None\<rparr>
     = extract_audio \<lparr>candidates = Some [\<lparr>content = None\<rparr>], resp_text = None\<rparr>"
  by (simp add: extract_audio_def)

text \<open>
  C4. When the first candidate has a content, the content a first part, and that part an
  inline payload \<open>d\<close> of at least one byte, the extraction returns \<open>d\<close> as it is, whatever
  the other candidates \<open>cs\<close> and the other parts \<open>ps\<close> are. When the first part has no
  inline payload, the extraction fails whatever the other parts hold: they are not looked at.
\<close>

theorem C4_first_payload_extracted:
  "(candidates r = Some (c # cs) \<and> content c = Some ct \<and> parts ct = Some (p # ps)
      \<and> inline_data p = Some b \<and> data b = Some d \<and> d \<noteq> [] \<longrightarrow> extract_audio r = Inr d)
   \<and> (candidates r' = Some (c' # cs') \<and> content c' = Some ct' \<and> parts ct' = Some (p' # ps')
      \<and> inline_data p' = None \<longrightarrow> extract_audio r' = Inl no_audio_data)"
  by (auto simp add: extract_audio_def split: list.splits)

text \<open>Two candidates and two parts; then a first part without payload before one with.\<close>

theorem C4_first_payload_extracted_witness:
  "extract_audio
     \<lparr>candidates = Some [\<lparr>content = Some \<lparr>parts = Some
         [\<lparr>inline_data = Some \<lparr>data = Some [0, 1, 2, 3]\<rparr>\<rparr>,
          \<lparr>inline_data = Some \<lparr>data = Some [9, 9]\<rparr>\<rparr>]\<rparr>\<rparr>,
        \<lparr>content = None\<rparr>],
      resp_text = None\<rparr> = Inr [0, 1, 2, 3]
   \<and> extract_audio
     \<lparr>candidates = Some [\<lparr>content = Some \<lparr>parts = Some
         [\<lparr>inline_data = None\<rparr>,
          \<lparr>inline_data = Some \<lparr>data = Some [9, 9]\<rparr>\<rparr>]\<rparr>\<rparr>],
      resp_text = None\<rparr> = Inl no_audio_data"
  using C4_first_payload_extracted
    [where r = "\<lparr>candidates = Some [\<lparr>content = Some \<lparr>parts = Some
         [\<lparr>inline_data = Some \<lparr>data = Some [0, 1, 2, 3]\<rparr>\<rparr>,
          \<lparr>inline_data = Some \<lparr>data = Some [9, 9]\<rparr>\<rparr>]\<rparr>\<rparr>,
        \<lparr>content = None\<rparr>],
      resp_text = None\<rparr>"
     and c = "\<lparr>content = Some \<lparr>parts = Some
         [\<lparr>inline_data = Some \<lparr>data = Some [0, 1, 2, 3]\<rparr>\<rparr>,
          \<lparr>inline_data = Some \<lparr>data = Some [9, 9]\<rparr>\<rparr>]\<rparr>\<rparr>"
     and cs = "[\<lparr>content = None\<rparr>]"
     and ct = "\<lparr>parts = Some
         [\<lparr>inline_data = Some \<lparr>data = Some [0, 1, 2, 3]\<rparr>\<rparr>,
          \<lparr>inline_data = Some \<lparr>data = Some [9, 9]\<rparr>\<rparr>]\<rparr>"
     and p = "\<lparr>inline_data = Some \<lparr>data = Some [0, 1, 2, 3]\<rparr>\<rparr>"
     and ps = "[\<lparr>inline_data = Some \<lparr>data = Some [9, 9]\<rparr>\<rparr>]"
     and b = "\<lparr>data = Some [0, 1, 2, 3]\<rparr>" and d = "[0, 1, 2, 3]"
     and r' = "\<lparr>candidates = Some [\<lparr>content = Some \<lparr>parts = Some
         [\<lparr>inline_data = None\<rparr>,
          \<lparr>inline_data = Some \<lparr>data = Some [9, 9]\<rparr>\<rparr>]\<rparr>\<rparr>],
      resp_text = None\<rparr>"
     and c' = "\<lparr>content = Some \<lparr>parts = Some
         [\<lparr>inline_data = None\<rparr>,
          \<lparr>inline_data = Some \<lparr>data = Some [9, 9]\<rparr>\<rparr>]\<rparr>\<rparr>"
     and cs' = "[]"
     and ct' = "\<lparr>parts = Some
         [\<lparr>inline_data = None\<rparr>,
          \<lparr>inline_data = Some \<lparr>data = Some [9, 9]\<rparr>\<rparr>]\<rparr>"
     and p' = "\<lparr>inline_data = None\<rparr>"
     and ps' = "[\<lparr>inline_data = Some \<lparr>data = Some [9, 9]\<rparr>\<rparr>]"]
  by simp

subsection \<open>Voices and speaker entries\<close>

lemma single_speaker_tts_invalid:
  "voice \<notin> set VOICES \<Longrightarrow>
     single_speaker_tts self w t voice out mdl = (Inl (voice_not_supported voice), w)"
  by (simp add: single_speaker_tts_def)

text \<open>
  C5. A voice that is not in \<open>VOICES\<close> makes \<^verbatim>\<open>single_speaker_tts\<close> fail with the voice
  error and leaves the world untouched; in \<^verbatim>\<open>multi_speaker_tts\<close> the first entry, in
  insertion order, whose voice is not in \<open>VOICES\<close> is the one the error names. A voice that
  is in \<open>VOICES\<close> passes: \<^verbatim>\<open>single_speaker_tts\<close> issues the call with that voice, and a
  mapping whose voices are all in \<open>VOICES\<close> passes the voice loop, after which only the number
  of speakers decides between the size error and the call. Membership is equality of
  strings, so it distinguishes case: Kore is a voice, kore and KORE are not.
\<close>

theorem C5_voice_validation:
  "(voice \<notin> set VOICES \<longrightarrow>
      single_speaker_tts self w t voice out mdl = (Inl (voice_not_supported voice), w))
   \<and> ((s, v) \<in> set speakers \<and> v \<notin> set VOICES \<longrightarrow>
        (\<exists>s' v'. find (\<lambda>(s, v). v \<notin> set VOICES) speakers = Some (s', v')
            \<and> multi_speaker_tts self w t speakers out mdl
                = (Inl (speaker_voice_not_supported v' s'), w)))
   \<and> (good \<in> set VOICES \<longrightarrow>
        calls (snd (single_speaker_tts self w t good out mdl))
          = calls w @ [single_request mdl t good])
   \<and> ((\<forall>(s, v) \<in> set valid. v \<in> set VOICES) \<longrightarrow>
        validate_voices valid = Inr ()
        \<and> (if 2 < length valid
            then multi_speaker_tts self w t valid out mdl = (Inl max_speakers, w)
            else calls (snd (multi_speaker_tts self w t valid out mdl))
                   = calls w @ [multi_request mdl t valid]))
   \<and> ''Kore'' \<in> set VOICES \<and> ''kore'' \<notin> set VOICES \<and> ''KORE'' \<notin> set VOICES"
proof (intro conjI impI)
  assume "voice \<notin> set VOICES"
  then show "single_speaker_tts self w t voice out mdl = (Inl (voice_not_supported voice), w)"
    by (rule single_speaker_tts_invalid)
next
  assume "(s, v) \<in> set speakers \<and> v \<notin> set VOICES"
  then have "(s, v) \<in> set speakers" and "v \<notin> set VOICES"
    by (rule conjunct1, rule conjunct2)
  then obtain s' v' where f: "find (\<lambda>(s, v). v \<notin> set VOICES) speakers = Some (s', v')"
    by (rule find_invalid)
  from f validate_voices_first [OF f]
  show "\<exists>s' v'. find (\<lambda>(s, v). v \<notin> set VOICES) speakers = Some (s', v')
            \<and> multi_speaker_tts self w t speakers out mdl
                = (Inl (speaker_voice_not_supported v' s'), w)"
    by (simp add: multi_speaker_tts_invalid)
next
  assume "good \<in> set VOICES"
  then show "calls (snd (single_speaker_tts self w t good out mdl))
          = calls w @ [single_request mdl t good]"
    by (rule single_speaker_tts_calls)
next
  assume ok: "\<forall>(s, v) \<in> set valid. v \<in> set VOICES"
  then show "validate_voices valid = Inr ()"
    by (simp add: validate_voices_ok)
  then show "if 2 < length valid
            then multi_speaker_tts self w t valid out mdl = (Inl max_speakers, w)
            else calls (snd (multi_speaker_tts self w t valid out mdl))
                   = calls w @ [multi_request mdl t valid]"
    by (simp add: multi_speaker_tts_too_many multi_speaker_tts_calls)
next
  show "''Kore'' \<in> set VOICES" by (simp add: VOICES_def)
  show "''kore'' \<notin> set VOICES" by (simp add: VOICES_def)
  show "''KORE'' \<notin> set VOICES" by (simp add: VOICES_def)
qed

text \<open>The voice kore; Joe with the voice Bob; the voice Kore; Jane and Joe.\<close>

theorem C5_voice_validation_witness:
  "''kore'' \<notin> set VOICES
   \<and> single_speaker_tts audio_service empty_world ''hi'' ''kore'' ''out.wav'' ''tts''
       = (Inl (voice_not_supported ''kore''), empty_world)
   \<and> (''Joe'', ''Bob'') \<in> set [(''Jane'', ''Kore''), (''Joe'', ''Bob'')]
   \<and> ''Bob'' \<notin> set VOICES
   \<and> multi_speaker_tts audio_service empty_world ''hi''
         [(''Jane'', ''Kore''), (''Joe'', ''Bob'')] ''out.wav'' ''tts''
       = (Inl (speaker_voice_not_supported ''Bob'' ''Joe''), empty_world)
   \<and> ''Kore'' \<in> set VOICES
   \<and> calls (snd (single_speaker_tts audio_service empty_world ''hi'' ''Kore'' ''out.wav'' ''tts''))
       = [single_request ''tts'' ''hi'' ''Kore'']
   \<and> validate_voices [(''Jane'', ''Kore''), (''Joe'', ''Puck'')] = Inr ()"
  using C5_voice_validation [where voice = "''kore''" and self = audio_service
      and w = empty_world and t = "''hi''" and out = "''out.wav''" and mdl = "''tts''"
      and s = "''Joe''" and v = "''Bob''"
      and speakers = "[(''Jane'', ''Kore''), (''Joe'', ''Bob'')]" and good = "''Kore''"
      and valid = "[(''Jane'', ''Kore''), (''Joe'', ''Puck'')]"]
  by (simp add: VOICES_def empty_world_def)

text \<open>
  C8. For the mapping Jane to Kore, Joe to Puck the request that \<^verbatim>\<open>multi_speaker_tts\<close> sends
  carries exactly two speaker entries, Jane with Kore first and Joe with Puck second.
\<close>

theorem C8_two_speaker_configs:
  "calls (snd (multi_speaker_tts self w t [(''Jane'', ''Kore''), (''Joe'', ''Puck'')] out mdl))
     = calls w @
       [\<lparr>model = mdl, contents = t,
         config = Some \<lparr>response_modalities = [''AUDIO''],
                        speech_config = MultiSpeakerVoiceConfig
                          [\<lparr>speaker = ''Jane'', voice_config = PrebuiltVoiceConfig ''Kore''\<rparr>,
                           \<lparr>speaker = ''Joe'', voice_config = PrebuiltVoiceConfig ''Puck''\<rparr>]\<rparr>\<rparr>]
   \<and> length (speaker_configs [(''Jane'', ''Kore''), (''Joe'', ''Puck'')]) = 2"
proof -
  have "validate_voices [(''Jane'', ''Kore''), (''Joe'', ''Puck'')] = Inr ()"
    by (simp add: VOICES_def)
  then show ?thesis
    by (simp add: multi_speaker_tts_calls multi_request_def)
qed

text \<open>With the fixture service, from the empty world.\<close>

theorem C8_two_speaker_configs_witness:
  "calls (snd (multi_speaker_tts audio_service empty_world ''Jane: Hi. Joe: Hello.''
                 [(''Jane'', ''Kore''), (''Joe'', ''Puck'')] ''out.wav'' ''tts''))
     = [\<lparr>model = ''tts'', contents = ''Jane: Hi. Joe: Hello.'',
         config = Some \<lparr>response_modalities = [''AUDIO''],
                        speech_config = MultiSpeakerVoiceConfig
                          [\<lparr>speaker = ''Jane'', voice_config = PrebuiltVoiceConfig ''Kore''\<rparr>,
                           \<lparr>speaker = ''Joe'', voice_config = PrebuiltVoiceConfig ''Puck''\<rparr>]\<rparr>\<rparr>]"
  using C8_two_speaker_configs [where self = audio_service and w = empty_world
      and t = "''Jane: Hi. Joe: Hello.''" and out = "''out.wav''" and mdl = "''tts''"]
  by (simp add: empty_world_def)

subsection \<open>Content generation\<close>

text \<open>
  C9. With a speakers mapping of exactly one entry, \<^verbatim>\<open>generate_content\<close> raises
  \<^verbatim>\<open>IndexError\<close> while it builds the dialogue prompt (\<^verbatim>\<open>speaker_names[1]\<close>), before any
  call: the world is untouched. Nothing in the class catches it: \<^verbatim>\<open>generate_and_speak\<close>
  ends with the same exception.
\<close>

theorem C9_one_speaker_index_error:
  assumes "length speakers = 1"
  shows "generate_content self w topic (Some speakers) generation_model
           = (Inl (IndexError ''list index out of range''), w)
         \<and> generate_and_speak self w topic (Some speakers) out generation_model tts_model
           = (Inl (IndexError ''list index out of range''), w)"
proof -
  from assms obtain item where "speakers = [item]"
    by (cases speakers) auto
  then show ?thesis
    by (simp add: generate_and_speak_def generate_content_def index_def)
qed

text \<open>The mapping Jane to Kore.\<close>

theorem C9_one_speaker_index_error_witness:
  "length [(''Jane'', ''Kore'')] = 1
   \<and> generate_content audio_service empty_world ''cats'' (Some [(''Jane'', ''Kore'')])
         ''gemini-2.0-flash''
       = (Inl (IndexError ''list index out of range''), empty_world)"
  using C9_one_speaker_index_error [where speakers = "[(''Jane'', ''Kore'')]"
      and self = audio_service and w = empty_world and topic = "''cats''"
      and generation_model = "''gemini-2.0-flash''"]
  by simp

subsection \<open>The credential\<close>






end
